theory Spec2Isabelle
  imports Complex_Main
begin

section \<open>Beat sequencer: the engine state of app.js\<close>

text \<open>
  The module keeps its state in \<open>let\<close> variables of one closure; here they are the
  fields of one record that every function takes and returns. Times are seconds on the
  clock of the AudioContext. JavaScript computes them in binary floating point; the
  model computes them in the reals, so a statement about timestamps is a statement about
  the exact values the code's expressions denote. The reading \<open>audioCtx.currentTime\<close>
  is an argument (\<open>now\<close>) of each function that reads the clock: it is the same for
  all reads inside one run-to-completion callback.
\<close>

subsection \<open>Configuration\<close>

definition CONFIG_steps :: nat where "CONFIG_steps = 16"
definition CONFIG_rows :: nat where "CONFIG_rows = 6"
definition CONFIG_defaultBpm :: int where "CONFIG_defaultBpm = 120"
definition CONFIG_minBpm :: int where "CONFIG_minBpm = 60"
definition CONFIG_maxBpm :: int where "CONFIG_maxBpm = 180"
definition CONFIG_scheduleAheadTime :: real where "CONFIG_scheduleAheadTime = 0.1"
definition CONFIG_lookaheadInterval :: real where "CONFIG_lookaheadInterval = 25"

datatype sound = kick | snare | hihat | tom | clap | rim

definition SOUNDS :: "sound list" where
  "SOUNDS = [kick, snare, hihat, tom, clap, rim]"

subsection \<open>Audio nodes, timers and the state record\<close>

datatype wave = sine | triangle | square

text \<open>
  A source node that has been started: an oscillator, or a buffer source with the
  reference it holds in its \<open>buffer\<close> property (\<open>None\<close> is \<open>null\<close>), each with
  the times given to \<open>start\<close> and \<open>stop\<close>. An AudioBuffer object is named by its
  address in \<open>buffers\<close>, so two sources play the same object iff the addresses agree.
\<close>

datatype source = Oscillator wave real real | BufferSource "nat option" real real

type_synonym voice = "sound \<times> real \<times> source list"

datatype callback = SchedulerCb | HighlightCb nat

datatype error = TypeError

record engine =
  audioCtx :: bool
  pattern :: "bool list list"
  currentStep :: nat
  isPlaying :: bool
  schedulerTimerId :: "nat option"
  bpm :: int
  nextStepTime :: real
  lastScheduledStep :: int
  noiseShort :: "nat option"
  noiseMedium :: "nat option"
  noiseLong :: "nat option"
  buffers :: "real list"
  timers :: "(nat \<times> callback \<times> real) list"
  timerSeq :: nat
  highlight :: "nat option"
  voices :: "voice list"
  committed :: "(nat \<times> real) list"

text \<open>
  \<open>audioCtx\<close> is \<open>True\<close> once the AudioContext (with master gain and analyser) exists;
  \<open>buffers\<close> is the heap of AudioBuffer objects created so far (each entry the duration
  it was created with; the random samples are not modelled); \<open>timers\<close> are the pending
  \<open>setTimeout\<close> entries (handle, callback, delay in ms) and \<open>timerSeq\<close> the last handle
  issued; \<open>highlight\<close> is the column the grid shows as current. \<open>voices\<close> and
  \<open>committed\<close> are history: one entry per \<open>playSoundAtTime\<close> call that passed its
  guard, and one entry per \<open>scheduleStep\<close> call, in call order. The DOM elements that
  \<open>cacheElements\<close> looks up are taken to exist.
\<close>

definition createEmptyPattern :: "bool list list" where
  "createEmptyPattern = replicate CONFIG_rows (replicate CONFIG_steps False)"

definition initial :: engine where
  "initial = \<lparr> audioCtx = False, pattern = createEmptyPattern, currentStep = 0,
     isPlaying = False, schedulerTimerId = None, bpm = CONFIG_defaultBpm,
     nextStepTime = 0, lastScheduledStep = -1,
     noiseShort = None, noiseMedium = None, noiseLong = None,
     buffers = [], timers = [], timerSeq = 0, highlight = None,
     voices = [], committed = [] \<rparr>"

subsection \<open>Timers of the host\<close>

definition setTimeout :: "callback \<Rightarrow> real \<Rightarrow> engine \<Rightarrow> nat \<times> engine" where
  "setTimeout cb delay s =
     (let h = Suc (timerSeq s)
      in (h, s\<lparr>timers := timers s @ [(h, cb, delay)], timerSeq := h\<rparr>))"

definition clearTimeout :: "nat \<Rightarrow> engine \<Rightarrow> engine" where
  "clearTimeout h s = s\<lparr>timers := filter (\<lambda>t. fst t \<noteq> h) (timers s)\<rparr>"

subsection \<open>Audio engine\<close>

definition createNoiseBuffer :: "real \<Rightarrow> engine \<Rightarrow> nat \<times> engine" where
  "createNoiseBuffer duration s = (length (buffers s), s\<lparr>buffers := buffers s @ [duration]\<rparr>)"

definition generateNoiseBuffers :: "engine \<Rightarrow> engine" where
  "generateNoiseBuffers s =
     (let (a, s1) = createNoiseBuffer 0.05 s;
          s2 = s1\<lparr>noiseShort := Some a\<rparr>;
          (b, s3) = createNoiseBuffer 0.15 s2;
          s4 = s3\<lparr>noiseMedium := Some b\<rparr>;
          (c, s5) = createNoiseBuffer 0.3 s4
      in s5\<lparr>noiseLong := Some c\<rparr>)"

definition initAudio :: "engine \<Rightarrow> engine" where
  "initAudio s = (if audioCtx s then s else generateNoiseBuffers (s\<lparr>audioCtx := True\<rparr>))"

definition playKick :: "real \<Rightarrow> engine \<Rightarrow> source list" where
  "playKick time s = [Oscillator sine time (time + 0.3), Oscillator sine time (time + 0.02)]"

definition playSnare :: "real \<Rightarrow> engine \<Rightarrow> source list" where
  "playSnare time s =
     [BufferSource (noiseLong s) time (time + 0.2), Oscillator triangle time (time + 0.15)]"

definition playHihat :: "real \<Rightarrow> engine \<Rightarrow> source list" where
  "playHihat time s = [BufferSource (noiseMedium s) time (time + 0.1)]"

definition playTom :: "real \<Rightarrow> engine \<Rightarrow> source list" where
  "playTom time s = [Oscillator sine time (time + 0.25)]"

function clapBursts :: "nat \<Rightarrow> real \<Rightarrow> engine \<Rightarrow> source list" where
  "clapBursts i time s =
     (if i < 3
      then (let startTime = time + real i * 0.01
            in BufferSource (noiseShort s) startTime (startTime + 0.03) # clapBursts (i + 1) time s)
      else [])"
  by pat_completeness auto
termination
  by (relation "measure (\<lambda>(i, time, s). 3 - i)") auto

declare clapBursts.simps [simp del]

definition playClap :: "real \<Rightarrow> engine \<Rightarrow> source list" where
  "playClap time s =
     clapBursts 0 time s @ [BufferSource (noiseLong s) (time + 0.03) (time + 0.18)]"

definition playRim :: "real \<Rightarrow> engine \<Rightarrow> source list" where
  "playRim time s = [Oscillator triangle time (time + 0.03), Oscillator square time (time + 0.03)]"

fun playSoundAtTime :: "sound \<Rightarrow> real \<Rightarrow> engine \<Rightarrow> engine" where
  "playSoundAtTime soundName time s =
     (if \<not> audioCtx s then s
      else s\<lparr>voices := voices s @
              [(soundName, time,
                (case soundName of
                   kick \<Rightarrow> playKick time s
                 | snare \<Rightarrow> playSnare time s
                 | hihat \<Rightarrow> playHihat time s
                 | tom \<Rightarrow> playTom time s
                 | clap \<Rightarrow> playClap time s
                 | rim \<Rightarrow> playRim time s))]\<rparr>)"

definition playSound :: "sound \<Rightarrow> real \<Rightarrow> engine \<Rightarrow> engine" where
  "playSound soundName now s = (if \<not> audioCtx s then s else playSoundAtTime soundName now s)"

subsection \<open>Tempo\<close>

definition getStepDuration :: "engine \<Rightarrow> real" where
  "getStepDuration s = 60 / real_of_int (bpm s) / 4"

text \<open>
  The same expression with each of its two divisions followed by a rounding \<open>rnd\<close>, as
  a floating-point unit evaluates it; \<open>getStepDuration\<close> is the instance without
  rounding.
\<close>

definition getStepDuration_rounded :: "(real \<Rightarrow> real) \<Rightarrow> engine \<Rightarrow> real" where
  "getStepDuration_rounded rnd s = rnd (rnd (60 / real_of_int (bpm s)) / 4)"

definition setBpm :: "int \<Rightarrow> engine \<Rightarrow> engine" where
  "setBpm newBpm s = s\<lparr>bpm := max CONFIG_minBpm (min CONFIG_maxBpm newBpm)\<rparr>"

subsection \<open>Sequencer\<close>

text \<open>
  \<open>scheduleStep\<close>: the row loop reads \<open>pattern[row][step]\<close>. Reading a row that the
  grid does not have gives \<open>undefined\<close>, and indexing that throws a TypeError; reading
  a column that a row does not have gives \<open>undefined\<close>, which is falsy.
\<close>

function scheduleStep_rows :: "nat \<Rightarrow> nat \<Rightarrow> real \<Rightarrow> engine \<Rightarrow> error \<times> engine + engine" where
  "scheduleStep_rows row step time s =
     (if row < CONFIG_rows
      then (if length (pattern s) \<le> row then Inl (TypeError, s)
            else scheduleStep_rows (row + 1) step time
                   (if step < length (pattern s ! row) \<and> pattern s ! row ! step
                    then playSoundAtTime (SOUNDS ! row) time s else s))
      else Inr s)"
  by pat_completeness auto
termination
  by (relation "measure (\<lambda>(row, step, time, s). CONFIG_rows - row)") auto

declare scheduleStep_rows.simps [simp del]

definition scheduleStep :: "nat \<Rightarrow> real \<Rightarrow> engine \<Rightarrow> error \<times> engine + engine" where
  "scheduleStep step time s =
     scheduleStep_rows 0 step time (s\<lparr>committed := committed s @ [(step, time)]\<rparr>)"

definition scheduleStepUI :: "nat \<Rightarrow> real \<Rightarrow> real \<Rightarrow> engine \<Rightarrow> engine" where
  "scheduleStepUI step time now s =
     snd (setTimeout (HighlightCb step) (max 0 ((time - now) * 1000)) s)"

text \<open>
  The \<open>while\<close> loop of \<open>scheduler\<close>. It does not end when the step duration is not
  positive, so it is a partial function: \<open>None\<close> is a loop that never returns.
\<close>

definition scheduler_body :: "real \<Rightarrow> engine \<Rightarrow> error \<times> engine + engine" where
  "scheduler_body now s =
     (case scheduleStep (currentStep s) (nextStepTime s) s of
        Inl e \<Rightarrow> Inl e
      | Inr s1 \<Rightarrow>
          (let s2 = scheduleStepUI (currentStep s1) (nextStepTime s1) now s1;
               s3 = s2\<lparr>nextStepTime := nextStepTime s2 + getStepDuration s2\<rparr>
           in Inr (s3\<lparr>currentStep := (currentStep s3 + 1) mod CONFIG_steps\<rparr>)))"

partial_function (option) scheduler_loop :: "real \<Rightarrow> engine \<Rightarrow> (error \<times> engine + engine) option" where
  "scheduler_loop now s =
     (if nextStepTime s < now + CONFIG_scheduleAheadTime
      then (case scheduler_body now s of
              Inl e \<Rightarrow> Some (Inl e)
            | Inr s' \<Rightarrow> scheduler_loop now s')
      else Some (Inr s))"

definition scheduler :: "real \<Rightarrow> engine \<Rightarrow> (error \<times> engine + engine) option" where
  "scheduler now s =
     (if \<not> isPlaying s then Some (Inr s)
      else if \<not> audioCtx s then Some (Inl (TypeError, s))
      else (case scheduler_loop now s of
              None \<Rightarrow> None
            | Some (Inl e) \<Rightarrow> Some (Inl e)
            | Some (Inr s1) \<Rightarrow>
                (let (h, s2) = setTimeout SchedulerCb CONFIG_lookaheadInterval s1
                 in Some (Inr (s2\<lparr>schedulerTimerId := Some h\<rparr>)))))"

definition startSequencer :: "real \<Rightarrow> engine \<Rightarrow> (error \<times> engine + engine) option" where
  "startSequencer now s =
     (if isPlaying s then Some (Inr s)
      else (let s1 = s\<lparr>isPlaying := True\<rparr>;
                s2 = s1\<lparr>currentStep := 0\<rparr>
            in if \<not> audioCtx s2 then Some (Inl (TypeError, s2))
               else scheduler now
                      (s2\<lparr>nextStepTime := now + 0.05, lastScheduledStep := -1\<rparr>)))"

definition clearStepHighlight :: "engine \<Rightarrow> engine" where
  "clearStepHighlight s = s\<lparr>highlight := None\<rparr>"

definition updateStepHighlight :: "nat \<Rightarrow> engine \<Rightarrow> engine" where
  "updateStepHighlight step s = (clearStepHighlight s)\<lparr>highlight := Some step\<rparr>"

text \<open>\<open>if (schedulerTimerId)\<close> is false for \<open>null\<close> and for the handle 0.\<close>

definition stopSequencer :: "engine \<Rightarrow> engine" where
  "stopSequencer s =
     (if \<not> isPlaying s then s
      else (let s1 = s\<lparr>isPlaying := False\<rparr>;
                s2 = (case schedulerTimerId s1 of
                        None \<Rightarrow> s1
                      | Some h \<Rightarrow>
                          if h \<noteq> 0 then (clearTimeout h s1)\<lparr>schedulerTimerId := None\<rparr> else s1)
            in (clearStepHighlight s2)\<lparr>currentStep := 0\<rparr>))"

definition togglePlayback :: "real \<Rightarrow> engine \<Rightarrow> (error \<times> engine + engine) option" where
  "togglePlayback now s = (if isPlaying s then Some (Inr (stopSequencer s)) else startSequencer now s)"

subsection \<open>Pattern editing\<close>

text \<open>
  \<open>toggleCell\<close> writes \<open>pattern[row][step]\<close>: a missing row throws, and a write past the
  end of a row extends the row (the cells in between read as \<open>undefined\<close>, which is
  falsy, and the written cell is \<open>!undefined\<close>).
\<close>

definition toggleCell :: "nat \<Rightarrow> nat \<Rightarrow> engine \<Rightarrow> error \<times> engine + engine" where
  "toggleCell row step s =
     (if length (pattern s) \<le> row then Inl (TypeError, s)
      else (let r = pattern s ! row;
                r' = (if step < length r then r[step := \<not> r ! step]
                      else r @ replicate (step - length r) False @ [True])
            in Inr (s\<lparr>pattern := (pattern s)[row := r']\<rparr>)))"

definition clearPattern :: "engine \<Rightarrow> engine" where
  "clearPattern s = s\<lparr>pattern := createEmptyPattern\<rparr>"

text \<open>
  \<open>randomizePattern\<close> draws one \<open>Math.random()\<close> per cell; \<open>draw rowIdx stepIdx\<close> is
  the number drawn for that cell.
\<close>

definition densities :: "real list" where
  "densities = [0.25, 0.2, 0.4, 0.15, 0.1, 0.15]"

definition chance :: "nat \<Rightarrow> nat \<Rightarrow> real" where
  "chance rowIdx stepIdx =
     (let onBeat = (stepIdx mod 4 = 0);
          offBeat = (stepIdx mod 4 = 2);
          c0 = densities ! rowIdx;
          c1 = (if rowIdx = 0 \<and> onBeat then 0.7 else c0)
      in if rowIdx = 1 \<and> offBeat then 0.5 else c1)"

definition randomizePattern :: "(nat \<Rightarrow> nat \<Rightarrow> real) \<Rightarrow> engine \<Rightarrow> engine" where
  "randomizePattern draw s =
     s\<lparr>pattern := map (\<lambda>rowIdx. map (\<lambda>stepIdx. draw rowIdx stepIdx < chance rowIdx stepIdx)
                                    [0..<CONFIG_steps])
                      [0..<CONFIG_rows]\<rparr>"

subsection \<open>Storage\<close>

text \<open>
  What \<open>localStorage.getItem\<close> and \<open>JSON.parse\<close> hand to the two load paths: no item,
  an item on which parsing or the first property access throws (both paths catch it
  before they have written anything), or a parsed object. The object has the persisted
  format, a grid of booleans of any shape and an integer tempo, each of which may be
  absent.
\<close>

record blob =
  b_pattern :: "bool list list option"
  b_bpm :: "int option"

datatype item = Missing | Malformed | Parsed blob

definition savePattern :: "engine \<Rightarrow> item" where
  "savePattern s = Parsed \<lparr> b_pattern = Some (pattern s), b_bpm = Some (bpm s) \<rparr>"

text \<open>
  \<open>updateGridDisplay\<close> reads \<open>pattern[row][step]\<close> for each of the 6 x 16 cells of the
  page, so it throws when the grid has fewer than 6 rows.
\<close>

definition updateGridDisplay :: "engine \<Rightarrow> error + engine" where
  "updateGridDisplay s = (if length (pattern s) < CONFIG_rows then Inl TypeError else Inr s)"

definition loadPattern :: "item \<Rightarrow> engine \<Rightarrow> engine" where
  "loadPattern it s =
     (case it of
        Missing \<Rightarrow> s
      | Malformed \<Rightarrow> s
      | Parsed parsed \<Rightarrow>
          (case b_pattern parsed of
             None \<Rightarrow> s
           | Some p \<Rightarrow>
               if length p = CONFIG_rows \<and> length (p ! 0) = CONFIG_steps
               then (let s1 = s\<lparr>pattern := p\<rparr>
                     in case updateGridDisplay s1 of
                          Inl e \<Rightarrow> s1
                        | Inr s2 \<Rightarrow>
                            (case b_bpm parsed of
                               None \<Rightarrow> s2
                             | Some n \<Rightarrow> if n \<noteq> 0 then setBpm n s2 else s2))
               else s))"

text \<open>
  The restore at page load, the part of \<open>init\<close> that touches the engine. Its
  \<open>try\<close> block ends at the first exception, which \<open>catch\<close> only logs.
\<close>

definition init_bpm :: "blob \<Rightarrow> engine \<Rightarrow> engine" where
  "init_bpm parsed s =
     (case b_bpm parsed of
        None \<Rightarrow> s
      | Some n \<Rightarrow> if n \<noteq> 0 then s\<lparr>bpm := n\<rparr> else s)"

definition init :: "item \<Rightarrow> engine \<Rightarrow> engine" where
  "init savedData s =
     (case savedData of
        Missing \<Rightarrow> s
      | Malformed \<Rightarrow> s
      | Parsed parsed \<Rightarrow>
          (case b_pattern parsed of
             None \<Rightarrow> init_bpm parsed s
           | Some p \<Rightarrow>
               (let s1 = s\<lparr>pattern := p\<rparr>
                in case updateGridDisplay s1 of
                     Inl e \<Rightarrow> s1
                   | Inr s2 \<Rightarrow> init_bpm parsed s2)))"

subsection \<open>Events\<close>

text \<open>
  A pending timeout may fire at any clock reading; a handle that is not pending never
  fires. A fired timeout leaves the pending list before its callback runs.
\<close>

definition fireTimer :: "nat \<Rightarrow> real \<Rightarrow> engine \<Rightarrow> (error \<times> engine + engine) option" where
  "fireTimer h now s =
     (case find (\<lambda>t. fst t = h) (timers s) of
        None \<Rightarrow> Some (Inr s)
      | Some (h', cb, delay) \<Rightarrow>
          (let s1 = clearTimeout h s
           in case cb of
                SchedulerCb \<Rightarrow> scheduler now s1
              | HighlightCb step \<Rightarrow>
                  Some (Inr (if isPlaying s1 then updateStepHighlight step s1 else s1))))"

datatype event =
    InitAudio
  | Start real
  | Stop
  | Timeout nat real
  | SetBpm int
  | PlaySound sound real
  | ToggleCell nat nat
  | ClearPattern
  | RandomizePattern "nat \<Rightarrow> nat \<Rightarrow> real"
  | LoadPattern item

fun exec :: "event \<Rightarrow> engine \<Rightarrow> (error \<times> engine + engine) option" where
  "exec InitAudio s = Some (Inr (initAudio s))"
| "exec (Start now) s = startSequencer now s"
| "exec Stop s = Some (Inr (stopSequencer s))"
| "exec (Timeout h now) s = fireTimer h now s"
| "exec (SetBpm n) s = Some (Inr (setBpm n s))"
| "exec (PlaySound soundName now) s = Some (Inr (playSound soundName now s))"
| "exec (ToggleCell row step) s = Some (toggleCell row step s)"
| "exec ClearPattern s = Some (Inr (clearPattern s))"
| "exec (RandomizePattern draw) s = Some (Inr (randomizePattern draw s))"
| "exec (LoadPattern it) s = Some (Inr (loadPattern it s))"

text \<open>
  An exception that leaves a handler ends that handler only: the state it had written
  stays, and the page goes on to the next event.
\<close>

definition after :: "error \<times> engine + engine \<Rightarrow> engine" where
  "after r = (case r of Inl (e, s) \<Rightarrow> s | Inr s \<Rightarrow> s)"

fun run :: "event list \<Rightarrow> engine \<Rightarrow> engine option" where
  "run [] s = Some s"
| "run (e # es) s = (case exec e s of None \<Rightarrow> None | Some r \<Rightarrow> run es (after r))"

subsection \<open>Vocabulary of the properties\<close>










text \<open>
  Example states: the grid with the kick on steps 0, 4, 8 and 12, and an engine that is
  playing it at 120 beats a minute with its next step due at 0.05 s.
\<close>

definition four_on_the_floor :: "bool list list" where
  "four_on_the_floor =
     [[True, False, False, False, True, False, False, False,
       True, False, False, False, True, False, False, False],
      [False, False, False, False, False, False, False, False,
       False, False, False, False, False, False, False, False],
      [False, False, False, False, False, False, False, False,
       False, False, False, False, False, False, False, False],
      [False, False, False, False, False, False, False, False,
       False, False, False, False, False, False, False, False],
      [False, False, False, False, False, False, False, False,
       False, False, False, False, False, False, False, False],
      [False, False, False, False, False, False, False, False,
       False, False, False, False, False, False, False, False]]"


text \<open>
  An engine with audio created and that grid loaded, stopped; and the state in which its
  first \<open>startSequencer\<close>, at clock reading 0, leaves it.
\<close>

definition ready_example :: engine where
  "ready_example =
     loadPattern (Parsed \<lparr> b_pattern = Some four_on_the_floor, b_bpm = Some 120 \<rparr>)
       (initAudio initial)"

definition started_example :: engine where
  "started_example =
     \<lparr> audioCtx = True, pattern = four_on_the_floor, currentStep = 1,
       isPlaying = True, schedulerTimerId = Some 2, bpm = 120,
       nextStepTime = 0.175, lastScheduledStep = -1,
       noiseShort = Some 0, noiseMedium = Some 1, noiseLong = Some 2,
       buffers = [0.05, 0.15, 0.3],
       timers = [(1, HighlightCb 0, 50), (2, SchedulerCb, 25)], timerSeq = 2,
       highlight = None,
       voices = [(kick, 0.05, [Oscillator sine 0.05 0.35, Oscillator sine 0.05 0.07])],
       committed = [(0, 0.05)] \<rparr>"

text \<open>
  The source nodes that \<open>playSoundAtTime\<close> creates for a sound in a state. Relations
  between a state and a later one: what the scheduler's loop may change; that every
  pending timeout has a handle that was issued, and that a pending heartbeat is the one
  \<open>schedulerTimerId\<close> names while the transport is running; and how the noise buffers,
  the references to them and the recorded voices stand.
\<close>

definition sources_of :: "engine \<Rightarrow> sound \<Rightarrow> real \<Rightarrow> source list" where
  "sources_of s soundName time =
     (case soundName of
        kick \<Rightarrow> playKick time s
      | snare \<Rightarrow> playSnare time s
      | hihat \<Rightarrow> playHihat time s
      | tom \<Rightarrow> playTom time s
      | clap \<Rightarrow> playClap time s
      | rim \<Rightarrow> playRim time s)"

definition from_bank :: "engine \<Rightarrow> voice \<Rightarrow> bool" where
  "from_bank s v = (snd (snd v) = sources_of s (fst v) (fst (snd v)))"

definition loop_frame :: "engine \<Rightarrow> engine \<Rightarrow> bool" where
  "loop_frame s s' =
     (audioCtx s' = audioCtx s \<and> pattern s' = pattern s \<and> isPlaying s' = isPlaying s
      \<and> schedulerTimerId s' = schedulerTimerId s \<and> bpm s' = bpm s
      \<and> noiseShort s' = noiseShort s \<and> noiseMedium s' = noiseMedium s
      \<and> noiseLong s' = noiseLong s \<and> buffers s' = buffers s
      \<and> timerSeq s \<le> timerSeq s'
      \<and> (\<exists>tm. timers s' = timers s @ tm
            \<and> (\<forall>x\<in>set tm. timerSeq s < fst x \<and> fst x \<le> timerSeq s'
                             \<and> fst (snd x) \<noteq> SchedulerCb))
      \<and> (\<exists>vs. voices s' = voices s @ vs \<and> (\<forall>v\<in>set vs. audioCtx s \<and> from_bank s v))
      \<and> (\<exists>cs. committed s' = committed s @ cs))"

definition timers_ok :: "engine \<Rightarrow> bool" where
  "timers_ok s =
     (\<forall>x\<in>set (timers s). 0 < fst x \<and> fst x \<le> timerSeq s
        \<and> (fst (snd x) = SchedulerCb \<longrightarrow> isPlaying s \<and> schedulerTimerId s = Some (fst x)))"

definition no_heartbeat :: "engine \<Rightarrow> bool" where
  "no_heartbeat s = (\<forall>x\<in>set (timers s). fst (snd x) \<noteq> SchedulerCb)"

definition noise_ok :: "engine \<Rightarrow> bool" where
  "noise_ok s =
     ((if audioCtx s
       then buffers s = [0.05, 0.15, 0.3] \<and> noiseShort s = Some 0
            \<and> noiseMedium s = Some 1 \<and> noiseLong s = Some 2
       else buffers s = [] \<and> noiseShort s = None \<and> noiseMedium s = None
            \<and> noiseLong s = None \<and> voices s = [])
      \<and> (\<forall>v\<in>set (voices s). from_bank s v))"

definition starts :: "event \<Rightarrow> bool" where
  "starts e = (case e of Start now \<Rightarrow> True | _ \<Rightarrow> False)"

section \<open>Properties\<close>

subsection \<open>The scheduler loop\<close>












subsection \<open>Heartbeats\<close>

lemmas eval_defs = scheduler_def scheduler_loop.simps scheduler_body_def scheduleStep_def
  scheduleStep_rows.simps scheduleStepUI_def setTimeout_def getStepDuration_def
  CONFIG_rows_def CONFIG_steps_def CONFIG_scheduleAheadTime_def CONFIG_lookaheadInterval_def
  SOUNDS_def Let_def playKick_def





subsection \<open>Tempo changes, stop and start\<close>







lemma ready_example_start: "startSequencer 0 ready_example = Some (Inr started_example)"
  by (simp add: ready_example_def started_example_def startSequencer_def loadPattern_def
      updateGridDisplay_def setBpm_def CONFIG_minBpm_def CONFIG_maxBpm_def CONFIG_defaultBpm_def
      initAudio_def initial_def generateNoiseBuffers_def createNoiseBuffer_def
      four_on_the_floor_def eval_defs)




subsection \<open>Tempo\<close>

text \<open>
  C9. For every integer input, \<open>setBpm\<close> stores the input clamped to the interval from
  60 to 180: an input below 60 is stored as 60, an input above 180 as 180, and an input
  in the interval unchanged. It changes nothing else and ends without an exception.
\<close>

theorem setBpm_clamps:
  "bpm (setBpm n s) = (if n < 60 then 60 else if 180 < n then 180 else n)
   \<and> 60 \<le> bpm (setBpm n s) \<and> bpm (setBpm n s) \<le> 180
   \<and> setBpm n s = s\<lparr>bpm := bpm (setBpm n s)\<rparr>
   \<and> exec (SetBpm n) s = Some (Inr (setBpm n s))"
  by (simp add: setBpm_def CONFIG_minBpm_def CONFIG_maxBpm_def)

theorem setBpm_clamps_witness:
  "bpm (setBpm 10 initial) = 60 \<and> bpm (setBpm 200 initial) = 180
   \<and> bpm (setBpm 97 initial) = 97
   \<and> exec (SetBpm 200) initial = Some (Inr (setBpm 200 initial))"
  using setBpm_clamps [of 10 initial] setBpm_clamps [of 200 initial]
    setBpm_clamps [of 97 initial]
  by simp

text \<open>
  C10. For every tempo from 60 to 180, \<open>getStepDuration\<close> is \<open>60 / bpm / 4\<close> seconds, so
  that four steps make a beat and \<open>bpm\<close> beats make 60 seconds; and when each of the
  two divisions is rounded with a relative error of at most \<open>2\<^sup>-\<^sup>5\<^sup>3\<close>, as in double
  precision, the result is within \<open>10\<^sup>-\<^sup>9\<close> of that value.
\<close>

theorem getStepDuration_tolerance:
  assumes lo: "60 \<le> bpm s" and hi: "bpm s \<le> 180"
    and r: "\<forall>x. \<bar>rnd x - x\<bar> \<le> \<bar>x\<bar> / 2 ^ 53"
  shows "getStepDuration s = 60 / real_of_int (bpm s) / 4
         \<and> 4 * getStepDuration s * real_of_int (bpm s) = 60
         \<and> \<bar>getStepDuration_rounded rnd s - 60 / real_of_int (bpm s) / 4\<bar> \<le> 1 / 10 ^ 9"
proof -
  define u :: real where "u = 1 / 2 ^ 53"
  have u: "0 \<le> u" "u \<le> 1 / 10000000000" by (simp_all add: u_def)
  have r': "\<bar>rnd x - x\<bar> \<le> \<bar>x\<bar> * u" for x using r by (simp add: u_def)
  define q where "q = 60 / real_of_int (bpm s)"
  have b: "60 \<le> real_of_int (bpm s)" using lo by auto
  have q0: "0 < q" using b by (simp add: q_def)
  have q1: "q \<le> 1" using b by (simp add: q_def)
  define r1 where "r1 = rnd q"
  define r2 where "r2 = rnd (r1 / 4)"
  have "\<bar>q\<bar> * u \<le> 1 * u" using q0 q1 u(1) by (intro mult_right_mono) auto
  with r'[of q] have e1: "\<bar>r1 - q\<bar> \<le> u" unfolding r1_def by linarith
  then have r1b: "\<bar>r1 / 4\<bar> \<le> 1 / 2" using q0 q1 u by simp
  have "\<bar>r1 / 4\<bar> * u \<le> (1 / 2) * u" using r1b u(1) by (intro mult_right_mono) auto
  with r'[of "r1 / 4"] have e2: "\<bar>r2 - r1 / 4\<bar> \<le> u / 2" unfolding r2_def by linarith
  have "\<bar>r2 - q / 4\<bar> \<le> 1 / 1000000000" using e1 e2 u by linarith
  then have "\<bar>getStepDuration_rounded rnd s - 60 / real_of_int (bpm s) / 4\<bar> \<le> 1 / 10 ^ 9"
    by (simp add: getStepDuration_rounded_def q_def r1_def r2_def)
  moreover have "4 * getStepDuration s * real_of_int (bpm s) = 60"
    using b by (simp add: getStepDuration_def)
  ultimately show ?thesis by (simp add: getStepDuration_def)
qed

theorem getStepDuration_tolerance_witness:
  "60 \<le> bpm (setBpm 120 initial) \<and> bpm (setBpm 120 initial) \<le> 180
   \<and> (\<forall>x::real. \<bar>x * (1 + 1 / 2 ^ 53) - x\<bar> \<le> \<bar>x\<bar> / 2 ^ 53)
   \<and> getStepDuration (setBpm 120 initial) = 1 / 8
   \<and> \<bar>getStepDuration_rounded (\<lambda>x. x * (1 + 1 / 2 ^ 53)) (setBpm 120 initial) - 1 / 8\<bar>
         \<le> 1 / 10 ^ 9"
proof -
  have b: "bpm (setBpm 120 initial) = 120"
    by (simp add: setBpm_def CONFIG_minBpm_def CONFIG_maxBpm_def)
  have r: "\<forall>x::real. \<bar>x * (1 + 1 / 2 ^ 53) - x\<bar> \<le> \<bar>x\<bar> / 2 ^ 53"
    by (simp add: algebra_simps abs_mult)
  from getStepDuration_tolerance [of "setBpm 120 initial" "\<lambda>x. x * (1 + 1 / 2 ^ 53)"] b r
  show ?thesis by simp
qed
end
